theory Spec2Isabelle
  imports Complex_Main "HOL-Library.AList"
begin

section \<open>Values\<close>

text \<open>
  A request body, a credential and a stored document are JSON values, as
  \<^verbatim>\<open>express.json()\<close> and \<^verbatim>\<open>JSON.parse\<close> produce them. An object is its
  list of properties in order. A value that may be \<^verbatim>\<open>undefined\<close> (a request
  without a body, a property that is absent) is a \<open>json option\<close>, with \<open>None\<close>
  for \<^verbatim>\<open>undefined\<close>. A number is a double. The handlers never calculate with
  one, they only test it against zero, so a finite number is kept as a rational. A
  literal beyond the range of a double, such as \<^verbatim>\<open>1e400\<close>, is parsed to
  \<^verbatim>\<open>Infinity\<close> or \<^verbatim>\<open>-Infinity\<close>, which are values of their own. Minus zero is
  not told from zero: every serialisation writes both as \<^verbatim>\<open>0\<close>.
\<close>

datatype json =
    JNull
  | JBool bool
  | JNum rat
  | JInfinity
  | JMinusInfinity
  | JStr string
  | JArr "json list"
  | JObj "(string \<times> json) list"

text \<open>JavaScript's \<^verbatim>\<open>!!v\<close>: the falsy JSON values are null, false, 0 and the empty string.\<close>

fun truthy :: "json \<Rightarrow> bool" where
  "truthy JNull = False"
| "truthy (JBool b) = b"
| "truthy (JNum n) = (n \<noteq> 0)"
| "truthy JInfinity = True"
| "truthy JMinusInfinity = True"
| "truthy (JStr s) = (s \<noteq> [])"
| "truthy (JArr xs) = True"
| "truthy (JObj ps) = True"

text \<open>JavaScript's \<^verbatim>\<open>typeof\<close>: null and arrays answer \<^verbatim>\<open>'object'\<close> too.\<close>

fun typeof :: "json \<Rightarrow> string" where
  "typeof JNull = ''object''"
| "typeof (JBool b) = ''boolean''"
| "typeof (JNum n) = ''number''"
| "typeof JInfinity = ''number''"
| "typeof JMinusInfinity = ''number''"
| "typeof (JStr s) = ''string''"
| "typeof (JArr xs) = ''object''"
| "typeof (JObj ps) = ''object''"

text \<open>
  The property reads of the handlers (\<^verbatim>\<open>.id\<close>, \<^verbatim>\<open>.worker\<close>, \<^verbatim>\<open>.timestamp\<close>,
  \<^verbatim>\<open>.credential\<close>): none of these names is an index or \<^verbatim>\<open>length\<close>, so only an
  object can hold one, and every other value answers \<^verbatim>\<open>undefined\<close>.
\<close>

fun read_prop :: "json \<Rightarrow> string \<Rightarrow> json option" where
  "read_prop (JObj ps) k = map_of ps k"
| "read_prop v k = None"

text \<open>The decimal name of an array index, as the spread of an array names its entries.\<close>

fun index_name :: "nat \<Rightarrow> string" where
  "index_name n =
     (if n < 10 then [char_of (48 + n)]
      else index_name (n div 10) @ [char_of (48 + n mod 10)])"

text \<open>
  The own enumerable properties that \<^verbatim>\<open>{...v}\<close> copies: those of an object, the
  indexed entries of an array. The route spreads a value only after its guard, which
  lets nothing else through; the last equation makes the function total.
\<close>

fun spread :: "json \<Rightarrow> (string \<times> json) list" where
  "spread (JObj ps) = ps"
| "spread (JArr xs) = zip (map index_name [0..<length xs]) xs"
| "spread v = []"

text \<open>
  An object literal whose property values may be \<^verbatim>\<open>undefined\<close>, as \<^verbatim>\<open>res.json\<close>
  serialises it: a property whose value is \<^verbatim>\<open>undefined\<close> is left out.
\<close>

fun json_obj :: "(string \<times> json option) list \<Rightarrow> (string \<times> json) list" where
  "json_obj [] = []"
| "json_obj ((k, None) # ps) = json_obj ps"
| "json_obj ((k, Some v) # ps) = (k, v) # json_obj ps"

text \<open>
  Whether the conversion of a value to a string throws, as it is made by a template
  string, \<^verbatim>\<open>`Credential ${credentialId} ...`\<close>. An object is converted by its
  \<^verbatim>\<open>toString\<close>: a parsed object that has a property of that name of its own hides
  the inherited method behind a value that cannot be called, its \<^verbatim>\<open>valueOf\<close>
  does not give a primitive either, and the conversion throws a TypeError; any other
  object is \<^verbatim>\<open>[object Object]\<close>. An array joins the strings of its entries, and
  throws when one of them does. Every other value has a string.
\<close>

fun ToString_throws :: "json \<Rightarrow> bool" where
  "ToString_throws (JObj ps) = (''toString'' \<in> fst ` set ps)"
| "ToString_throws (JArr xs) = (\<exists>x \<in> set xs. ToString_throws x)"
| "ToString_throws v = False"

text \<open>
  The value that the text written by \<^verbatim>\<open>JSON.stringify\<close> denotes: the infinities are
  written as \<^verbatim>\<open>null\<close>, at any depth, and everything else as it is.
\<close>

fun written :: "json \<Rightarrow> json" where
  "written JInfinity = JNull"
| "written JMinusInfinity = JNull"
| "written (JArr xs) = JArr (map written xs)"
| "written (JObj ps) = JObj (map (\<lambda>(k, x). (k, written x)) ps)"
| "written v = v"

text \<open>Whether a value holds no infinity, so that it is written as it is.\<close>

fun all_finite :: "json \<Rightarrow> bool" where
  "all_finite JInfinity = False"
| "all_finite JMinusInfinity = False"
| "all_finite (JArr xs) = (\<forall>x \<in> set xs. all_finite x)"
| "all_finite (JObj ps) = (\<forall>(k, x) \<in> set ps. all_finite x)"
| "all_finite v = True"

section \<open>The storage layer (storage.ts)\<close>

text \<open>
  The \<^verbatim>\<open>data\<close> column is TEXT. The only reader of a cell is \<^verbatim>\<open>JSON.parse\<close>, so a
  cell is kept as what \<^verbatim>\<open>JSON.parse\<close> makes of it: the text of a JSON value, or a
  text that is not JSON, on which \<^verbatim>\<open>JSON.parse\<close> throws a SyntaxError.
\<close>

datatype sqltext = Serialized json | NotJson string

datatype error = SQLITE_CONSTRAINT | SyntaxError | TypeError

definition JSON_stringify :: "json \<Rightarrow> sqltext" where
  "JSON_stringify v = Serialized (written v)"

fun JSON_parse :: "sqltext \<Rightarrow> error + json" where
  "JSON_parse (Serialized v) = Inr v"
| "JSON_parse (NotJson s) = Inl SyntaxError"

text \<open>The statements the class sends to the database, in the order it sends them.\<close>

datatype statement =
    CREATE_TABLE_IF_NOT_EXISTS
  | INSERT string
  | SELECT_id string
  | SELECT_data string

text \<open>
  The state of the \<^verbatim>\<open>Storage\<close> singleton and of the database file behind it:
  \<open>db\<close> says whether the handle is open (\<^verbatim>\<open>this.db\<close> is not null), \<open>credentials\<close>
  is the table, one \<open>(id, data)\<close> pair per row in insertion order, and \<open>statements\<close>
  records every statement sent so far. The \<^verbatim>\<open>created_at\<close> column is never read and
  is left out. What a log line writes is left out too, but not that it can throw.
  Failures of the disk are not modelled: the errors are the three the code can meet on
  a working database, the constraint error of an insert, the SyntaxError of
  \<^verbatim>\<open>JSON.parse\<close> and the TypeError of a log line.
\<close>

record Storage =
  db :: bool
  credentials :: "(string \<times> sqltext) list"
  statements :: "statement list"

text \<open>
  The routes pass \<^verbatim>\<open>credential.id\<close> to the storage methods as it came in the
  request, whatever its type. The driver binds a string as itself; how it turns any
  other value into the text of the \<^verbatim>\<open>id\<close> column is not code of the repository,
  and is the parameter \<open>drv\<close> of every storage method.
\<close>

definition bind_id :: "(json \<Rightarrow> string) \<Rightarrow> json \<Rightarrow> string" where
  "bind_id drv v = (case v of JStr s \<Rightarrow> s | _ \<Rightarrow> drv v)"

text \<open>
  A log line whose template string holds the id: it throws where the conversion of
  the id to a string does, and does nothing else that the routes can see.
\<close>

definition log_id :: "json \<Rightarrow> error + unit" where
  "log_id v = (if ToString_throws v then Inl TypeError else Inr ())"

definition sent :: "statement \<Rightarrow> Storage \<Rightarrow> Storage" where
  "sent q s = s\<lparr>statements := statements s @ [q]\<rparr>"

text \<open>
  \<^verbatim>\<open>init\<close>: opens the handle and runs \<^verbatim>\<open>CREATE TABLE IF NOT EXISTS\<close>, which leaves
  an existing table as it is.
\<close>

definition init :: "Storage \<Rightarrow> Storage" where
  "init s = sent CREATE_TABLE_IF_NOT_EXISTS (s\<lparr>db := True\<rparr>)"

text \<open>\<^verbatim>\<open>if (!this.db) await this.init()\<close>, the first line of every other method.\<close>

definition ensure_db :: "Storage \<Rightarrow> Storage" where
  "ensure_db s = (if \<not> db s then init s else s)"

text \<open>
  The engine's \<^verbatim>\<open>INSERT INTO credentials (id, data) VALUES (?, ?)\<close> on the table
  declared with \<^verbatim>\<open>id TEXT PRIMARY KEY\<close>: a row whose id is already in the table is
  refused with a constraint error, any other row is appended.
\<close>

definition sql_insert ::
  "string \<Rightarrow> sqltext \<Rightarrow> (string \<times> sqltext) list \<Rightarrow> error + (string \<times> sqltext) list" where
  "sql_insert k d rows =
     (if k \<in> fst ` set rows then Inl SQLITE_CONSTRAINT else Inr (rows @ [(k, d)]))"

text \<open>
  \<^verbatim>\<open>save\<close>: the error of the insert is logged and thrown again. The log line of the
  \<^verbatim>\<open>catch\<close> holds the id; where it throws, \<^verbatim>\<open>save\<close> fails with that TypeError in
  place of the engine's error. The route answers every error of \<^verbatim>\<open>save\<close> alike, and
  the error kept here is the engine's.
\<close>

definition save ::
  "(json \<Rightarrow> string) \<Rightarrow> Storage \<Rightarrow> json \<Rightarrow> json \<Rightarrow> Storage \<times> (error + unit)" where
  "save drv s cid data =
     (let s1 = sent (INSERT (bind_id drv cid)) (ensure_db s) in
      case sql_insert (bind_id drv cid) (JSON_stringify data) (credentials s1) of
        Inl e \<Rightarrow> (s1, Inl e)
      | Inr rows \<Rightarrow> (s1\<lparr>credentials := rows\<rparr>, Inr ()))"

text \<open>\<^verbatim>\<open>exists\<close>: \<^verbatim>\<open>!!result\<close> of \<^verbatim>\<open>SELECT id FROM credentials WHERE id = ?\<close>.\<close>

definition exists_id :: "(json \<Rightarrow> string) \<Rightarrow> Storage \<Rightarrow> json \<Rightarrow> Storage \<times> bool" where
  "exists_id drv s cid =
     (let s1 = sent (SELECT_id (bind_id drv cid)) (ensure_db s) in
      (s1, map_of (credentials s1) (bind_id drv cid) \<noteq> None))"

text \<open>
  \<^verbatim>\<open>get\<close>: the parsed \<^verbatim>\<open>data\<close> of the row, \<^verbatim>\<open>null\<close> when there is no row. Both
  branches log the id first (lines 107 and 110), inside the \<^verbatim>\<open>try\<close>. The
  \<^verbatim>\<open>catch\<close> logs the id as well and throws again: a SyntaxError of \<^verbatim>\<open>JSON.parse\<close>
  leaves it as it came, since the id was logged once already, and a TypeError of a
  log line leaves it as the TypeError of the next.
\<close>

definition get :: "(json \<Rightarrow> string) \<Rightarrow> Storage \<Rightarrow> json \<Rightarrow> Storage \<times> (error + json)" where
  "get drv s cid =
     (let s1 = sent (SELECT_data (bind_id drv cid)) (ensure_db s) in
      case map_of (credentials s1) (bind_id drv cid) of
        Some d \<Rightarrow>
          (case log_id cid of
             Inl err \<Rightarrow> (s1, Inl err)
           | Inr u \<Rightarrow> (s1, JSON_parse d))
      | None \<Rightarrow>
          (case log_id cid of
             Inl err \<Rightarrow> (s1, Inl err)
           | Inr u \<Rightarrow> (s1, Inr JNull)))"

section \<open>The routes\<close>

record response =
  status :: nat
  body :: json

text \<open>
  What a request reads from outside the handler: the worker's \<^verbatim>\<open>WORKER_ID\<close>, the
  value that \<^verbatim>\<open>uuidv4()\<close> returns, and the two readings of the clock, one for each
  \<^verbatim>\<open>new Date().toISOString()\<close> of the issue route: \<open>date_saved\<close> is read while the
  record is built (index.ts line 81), \<open>date_replied\<close> while the response is built
  after the save has returned (line 90).
\<close>

record env =
  WORKER_ID :: string
  uuidv4 :: string
  date_saved :: string
  date_replied :: string

definition message :: "nat \<Rightarrow> string \<Rightarrow> response" where
  "message code m = \<lparr>status = code, body = JObj [(''message'', JStr m)]\<rparr>"

subsection \<open>POST /issue (issuance-service/src/index.ts)\<close>

text \<open>
  The handler suspends at its two \<^verbatim>\<open>await\<close>s. \<open>pending\<close> is what it holds after
  the first: a response already sent, or the resolved id, the credential with its id
  and the answer of \<^verbatim>\<open>storage.exists\<close>.
\<close>

datatype pending =
    Reply response
  | Checked json json bool

text \<open>
  Line 67, \<^verbatim>\<open>credential.id || uuidv4()\<close>: the id of the request when it has a truthy
  one, a generated one otherwise.
\<close>

definition resolve_id :: "env \<Rightarrow> json \<Rightarrow> json" where
  "resolve_id e credential =
     (case read_prop credential ''id'' of
        None \<Rightarrow> JStr (uuidv4 e)
      | Some v \<Rightarrow> if truthy v then v else JStr (uuidv4 e))"

text \<open>Lines 59 to 71: validation, the id, and the call of \<^verbatim>\<open>storage.exists\<close>.\<close>

definition issue_check ::
  "(json \<Rightarrow> string) \<Rightarrow> env \<Rightarrow> Storage \<Rightarrow> json option \<Rightarrow> Storage \<times> pending" where
  "issue_check drv e s req_body =
     (case req_body of
        None \<Rightarrow> (s, Reply (message 400 ''Invalid credential format''))
      | Some credential \<Rightarrow>
          if \<not> truthy credential \<or> typeof credential \<noteq> ''object''
          then (s, Reply (message 400 ''Invalid credential format''))
          else
            let credentialId = resolve_id e credential;
                credentialWithId = JObj (AList.update ''id'' credentialId (spread credential));
                (s1, found) = exists_id drv s credentialId
            in (s1, Checked credentialId credentialWithId found))"

text \<open>
  Lines 72 to 95: the conflict, the save, the response. The id is logged before the
  409 is sent (line 73) and after the save has returned (line 84). An error thrown by
  \<^verbatim>\<open>storage.save\<close> or by a log line lands in the \<^verbatim>\<open>catch\<close> of the handler, which
  answers 500; the row of a save that has returned stays.
\<close>

fun issue_save ::
  "(json \<Rightarrow> string) \<Rightarrow> env \<Rightarrow> Storage \<Rightarrow> pending \<Rightarrow> Storage \<times> response" where
  "issue_save drv e s (Reply r) = (s, r)"
| "issue_save drv e s (Checked credentialId credentialWithId found) =
     (if found
      then
        (case log_id credentialId of
           Inl err \<Rightarrow> (s, message 500 ''Internal server error'')
         | Inr u \<Rightarrow> (s, message 409 ''Credential already issued''))
      else
        (case save drv s credentialId
                (JObj [(''credential'', credentialWithId),
                       (''worker'', JStr (WORKER_ID e)),
                       (''timestamp'', JStr (date_saved e))]) of
           (s1, Inl err) \<Rightarrow> (s1, message 500 ''Internal server error'')
         | (s1, Inr u) \<Rightarrow>
             (case log_id credentialId of
                Inl err \<Rightarrow> (s1, message 500 ''Internal server error'')
              | Inr u \<Rightarrow>
                  (s1, \<lparr>status = 201,
                        body = JObj [(''message'',
                                        JStr (''Credential issued by '' @ WORKER_ID e)),
                                     (''worker'', JStr (WORKER_ID e)),
                                     (''credentialId'', credentialId),
                                     (''timestamp'', JStr (date_replied e))]\<rparr>))))"

text \<open>A request served with nothing else running between its two halves.\<close>

definition issue ::
  "(json \<Rightarrow> string) \<Rightarrow> env \<Rightarrow> Storage \<Rightarrow> json option \<Rightarrow> Storage \<times> response" where
  "issue drv e s req_body =
     (case issue_check drv e s req_body of (s1, p) \<Rightarrow> issue_save drv e s1 p)"

subsection \<open>POST /verify (the verification service)\<close>

text \<open>
  The verification service imports a \<^verbatim>\<open>./storage\<close> of its own and opens the same
  database file. Its storage is the class above, so one \<open>Storage\<close> stands for the
  table and for the handle of whichever service is asked. Both answers that follow a
  lookup log the id first (lines 86 and 93). The body of a response is the object the
  route hands to \<^verbatim>\<open>res.json\<close>.
\<close>

definition verify ::
  "(json \<Rightarrow> string) \<Rightarrow> Storage \<Rightarrow> json option \<Rightarrow> Storage \<times> response" where
  "verify drv s req_body =
     (case req_body of
        None \<Rightarrow> (s, message 400 ''Invalid credential format'')
      | Some credential \<Rightarrow>
          (if \<not> truthy credential \<or> typeof credential \<noteq> ''object''
           then (s, message 400 ''Invalid credential format'')
           else
             (case read_prop credential ''id'' of
                None \<Rightarrow> (s, message 400 ''Credential ID is required'')
              | Some credentialId \<Rightarrow>
                  (if \<not> truthy credentialId
                   then (s, message 400 ''Credential ID is required'')
                   else
                     (case get drv s credentialId of
                        (s1, Inl err) \<Rightarrow> (s1, message 500 ''Internal server error'')
                      | (s1, Inr credentialData) \<Rightarrow>
                          (case log_id credentialId of
                             Inl err \<Rightarrow> (s1, message 500 ''Internal server error'')
                           | Inr u \<Rightarrow>
                               (if \<not> truthy credentialData
                                then (s1, \<lparr>status = 404,
                                           body = JObj [(''status'', JStr ''invalid''),
                                                        (''message'',
                                                           JStr ''Credential not found'')]\<rparr>)
                                else (s1, \<lparr>status = 200,
                                           body = JObj (json_obj
                                             [(''status'', Some (JStr ''valid'')),
                                              (''worker'', read_prop credentialData ''worker''),
                                              (''timestamp'',
                                                 read_prop credentialData ''timestamp''),
                                              (''credential'',
                                                 read_prop credentialData ''credential'')])\<rparr>))))))))"

subsection \<open>Requests one after the other\<close>

datatype request =
    Issue env "json option"
  | Verify "json option"

fun handle :: "(json \<Rightarrow> string) \<Rightarrow> Storage \<Rightarrow> request \<Rightarrow> Storage \<times> response" where
  "handle drv s (Issue e b) = issue drv e s b"
| "handle drv s (Verify b) = verify drv s b"

text \<open>The storage after a list of requests, each served to its end before the next.\<close>

fun serve :: "(json \<Rightarrow> string) \<Rightarrow> Storage \<Rightarrow> request list \<Rightarrow> Storage" where
  "serve drv s [] = s"
| "serve drv s (r # rs) = serve drv (fst (handle drv s r)) rs"

text \<open>The responses to the same requests, in order.\<close>

fun replies :: "(json \<Rightarrow> string) \<Rightarrow> Storage \<Rightarrow> request list \<Rightarrow> response list" where
  "replies drv s [] = []"
| "replies drv s (r # rs) = snd (handle drv s r) # replies drv (fst (handle drv s r)) rs"

text \<open>The id a response reports as issued: the \<^verbatim>\<open>credentialId\<close> of a 201.\<close>

definition issued_id :: "response \<Rightarrow> json option" where
  "issued_id r = (if status r = 201 then read_prop (body r) ''credentialId'' else None)"

text \<open>Whether a response reports the issuance of an id stored under the key \<open>k\<close>.\<close>

definition issued_as :: "(json \<Rightarrow> string) \<Rightarrow> string \<Rightarrow> response \<Rightarrow> bool" where
  "issued_as drv k r = (case issued_id r of None \<Rightarrow> False | Some c \<Rightarrow> bind_id drv c = k)"

text \<open>Whether a cell holds the text of a JSON value, as every cell written by \<^verbatim>\<open>save\<close> does.\<close>

fun is_json :: "sqltext \<Rightarrow> bool" where
  "is_json (Serialized v) = True"
| "is_json (NotJson t) = False"

subsection \<open>Two issue requests at once\<close>

text \<open>
  Node runs a handler without interruption from one \<^verbatim>\<open>await\<close> to the next, so an
  issue request in flight is at one of three points: arrived, suspended on the
  database between \<^verbatim>\<open>exists\<close> and \<^verbatim>\<open>save\<close>, or answered.
\<close>

datatype task =
    Arrived env "json option"
  | Suspended env pending
  | Answered response

fun advance :: "(json \<Rightarrow> string) \<Rightarrow> Storage \<Rightarrow> task \<Rightarrow> Storage \<times> task" where
  "advance drv s (Arrived e b) =
     (case issue_check drv e s b of (s1, p) \<Rightarrow> (s1, Suspended e p))"
| "advance drv s (Suspended e p) =
     (case issue_save drv e s p of (s1, r) \<Rightarrow> (s1, Answered r))"
| "advance drv s (Answered r) = (s, Answered r)"

text \<open>
  A schedule says which of two requests runs next: \<open>True\<close> the first, \<open>False\<close> the
  second. A request that is answered already stays as it is.
\<close>

fun interleave ::
  "(json \<Rightarrow> string) \<Rightarrow> bool list \<Rightarrow> Storage \<times> task \<times> task \<Rightarrow> Storage \<times> task \<times> task" where
  "interleave drv [] c = c"
| "interleave drv (True # sched) (s, a, b) =
     (case advance drv s a of (s1, a1) \<Rightarrow> interleave drv sched (s1, a1, b))"
| "interleave drv (False # sched) (s, a, b) =
     (case advance drv s b of (s1, b1) \<Rightarrow> interleave drv sched (s1, a, b1))"

fun answered :: "task \<Rightarrow> bool" where
  "answered (Answered r) = True"
| "answered t = False"

fun answer :: "task \<Rightarrow> nat option" where
  "answer (Answered r) = Some (status r)"
| "answer t = None"

text \<open>How many of its two halves a request has run.\<close>

fun progress :: "task \<Rightarrow> nat" where
  "progress (Arrived e b) = 0"
| "progress (Suspended e p) = 1"
| "progress (Answered r) = 2"

text \<open>
  The invariant of a race for the id \<open>v\<close>, used in the proofs only. A request for
  \<open>v\<close> carries \<open>v\<close> when it arrives; while it is suspended it holds \<open>v\<close>, and was told
  that the id exists only if it does; once answered, its status is 201, 409 or 500 and
  the id has a row.
\<close>

definition stage_ok :: "(json \<Rightarrow> string) \<Rightarrow> json \<Rightarrow> Storage \<Rightarrow> task \<Rightarrow> bool" where
  "stage_ok drv v s t =
     (case t of
        Arrived e b \<Rightarrow> (\<exists>ps. b = Some (JObj ps) \<and> map_of ps ''id'' = Some v)
      | Suspended e p \<Rightarrow>
          (\<exists>w found. p = Checked v w found \<and>
             (found \<longrightarrow> bind_id drv v \<in> fst ` set (credentials s)))
      | Answered r \<Rightarrow>
          (status r = 201 \<or> status r = 409 \<or> status r = 500) \<and>
          bind_id drv v \<in> fst ` set (credentials s))"

text \<open>
  Both requests are at a stage as above, and the table is the one the race started
  from, \<open>rows\<close>, until one request is answered 201; from then on it is \<open>rows\<close> and one
  row for the id, and the other request is not answered 201.
\<close>

definition race_inv ::
  "(json \<Rightarrow> string) \<Rightarrow> json \<Rightarrow> (string \<times> sqltext) list \<Rightarrow> Storage \<times> task \<times> task \<Rightarrow> bool" where
  "race_inv drv v rows c =
     (case c of (s, a, b) \<Rightarrow>
        stage_ok drv v s a \<and> stage_ok drv v s b \<and>
        (if answer a = Some 201 \<or> answer b = Some 201
         then \<not> (answer a = Some 201 \<and> answer b = Some 201) \<and>
              (\<exists>d. credentials s = rows @ [(bind_id drv v, d)])
         else credentials s = rows))"

subsection \<open>Sample values\<close>

text \<open>
  A driver that binds every value that is not a string as \<^verbatim>\<open>[object Object]\<close>, what
  two requests read on one worker, a database that was never opened, a credential
  without an id, one with the id \<^verbatim>\<open>X\<close>, a verification request for \<^verbatim>\<open>X\<close>, and the
  race of two issue requests for \<^verbatim>\<open>X\<close> in which both ask \<^verbatim>\<open>exists\<close> before either
  saves.
\<close>

definition sample_driver :: "json \<Rightarrow> string" where
  "sample_driver v = ''[object Object]''"

definition reads_a :: env where
  "reads_a = \<lparr>WORKER_ID = ''worker-1'', uuidv4 = ''0b5e1c1e-aaaa'',
                date_saved = ''2025-10-07T08:10:11.611Z'',
                date_replied = ''2025-10-07T08:10:11.634Z''\<rparr>"

definition reads_b :: env where
  "reads_b = \<lparr>WORKER_ID = ''worker-1'', uuidv4 = ''7c2f9d3a-bbbb'',
                date_saved = ''2025-10-07T08:10:11.612Z'',
                date_replied = ''2025-10-07T08:10:11.640Z''\<rparr>"

definition new_db :: Storage where
  "new_db = \<lparr>db = False, credentials = [], statements = []\<rparr>"

definition jane :: json where
  "jane = JObj [(''name'', JStr ''Jane'')]"

definition cred_x :: json where
  "cred_x = JObj [(''id'', JStr ''X''), (''name'', JStr ''Jane'')]"

definition ask_x :: json where
  "ask_x = JObj [(''id'', JStr ''X'')]"

text \<open>An id that no template string can hold, \<^verbatim>\<open>{"toString": 1}\<close>, and a request that carries it.\<close>

definition odd_id :: json where
  "odd_id = JObj [(''toString'', JNum 1)]"

definition cred_odd :: json where
  "cred_odd = JObj [(''id'', odd_id), (''name'', JStr ''Jane'')]"

text \<open>A credential with a number beyond the range of a double, \<^verbatim>\<open>{"limit": 1e400}\<close>.\<close>

definition cred_big :: json where
  "cred_big = JObj [(''limit'', JInfinity)]"

definition race_check_first :: "Storage \<times> task \<times> task" where
  "race_check_first =
     interleave sample_driver [True, False, True, False]
       (new_db, Arrived reads_a (Some cred_x), Arrived reads_b (Some cred_x))"

section \<open>Properties of the storage layer\<close>

lemma credentials_sent [simp]: "credentials (sent q s) = credentials s"
  by (simp add: sent_def)

lemma credentials_ensure_db [simp]: "credentials (ensure_db s) = credentials s"
  by (simp add: ensure_db_def init_def)

lemma db_ensure_db [simp]: "db (ensure_db s)"
  by (simp add: ensure_db_def init_def sent_def)

lemma ensure_db_open [simp]: "db s \<Longrightarrow> ensure_db s = s"
  by (simp add: ensure_db_def)

lemma db_sent [simp]: "db (sent q s) = db s"
  by (simp add: sent_def)

lemma map_of_None_keys: "(map_of rows k = None) = (k \<notin> fst ` set rows)"
  by (simp add: map_of_eq_None_iff)

lemma log_id_eq [simp]:
  "(log_id v = Inl err) = (ToString_throws v \<and> err = TypeError)"
  "(log_id v = Inr u) = (\<not> ToString_throws v)"
  by (auto simp: log_id_def)

text \<open>Each method as one equation: the state it leaves and what it returns.\<close>

lemma exists_id_eq:
  "exists_id drv s cid =
     (sent (SELECT_id (bind_id drv cid)) (ensure_db s),
      bind_id drv cid \<in> fst ` set (credentials s))"
  by (simp add: exists_id_def Let_def map_of_None_keys)

lemma save_eq:
  "save drv s cid data =
     (if bind_id drv cid \<in> fst ` set (credentials s)
      then (sent (INSERT (bind_id drv cid)) (ensure_db s), Inl SQLITE_CONSTRAINT)
      else ((sent (INSERT (bind_id drv cid)) (ensure_db s))
              \<lparr>credentials := credentials s @ [(bind_id drv cid, JSON_stringify data)]\<rparr>,
            Inr ()))"
  by (simp add: save_def Let_def sql_insert_def)

lemma get_eq:
  "get drv s cid =
     (sent (SELECT_data (bind_id drv cid)) (ensure_db s),
      if ToString_throws cid then Inl TypeError
      else case map_of (credentials s) (bind_id drv cid) of
             Some d \<Rightarrow> JSON_parse d
           | None \<Rightarrow> Inr JNull)"
  by (simp add: get_def Let_def log_id_def split: option.split)

text \<open>
  C3. \<^verbatim>\<open>save\<close> on an id that has a row fails with the constraint error of the engine
  and leaves the table as it was; on an id without a row it appends exactly the new
  row. This holds in every state of the storage, whether or not \<^verbatim>\<open>exists\<close> was
  asked before: the refusal is the insert's own.
\<close>

theorem save_refuses_existing_id:
  "(bind_id drv cid \<in> fst ` set (credentials s) \<longrightarrow>
      snd (save drv s cid data) = Inl SQLITE_CONSTRAINT \<and>
      credentials (fst (save drv s cid data)) = credentials s) \<and>
   (bind_id drv cid \<notin> fst ` set (credentials s) \<longrightarrow>
      snd (save drv s cid data) = Inr () \<and>
      credentials (fst (save drv s cid data)) =
        credentials s @ [(bind_id drv cid, JSON_stringify data)])"
  by (simp add: save_eq)

theorem save_refuses_existing_id_witness:
  "snd (save sample_driver
          \<lparr>db = True, credentials = [(''X'', Serialized JNull)], statements = []\<rparr>
          (JStr ''X'') jane) = Inl SQLITE_CONSTRAINT \<and>
   credentials (fst (save sample_driver
          \<lparr>db = True, credentials = [(''X'', Serialized JNull)], statements = []\<rparr>
          (JStr ''X'') jane)) = [(''X'', Serialized JNull)] \<and>
   snd (save sample_driver
          \<lparr>db = True, credentials = [(''X'', Serialized JNull)], statements = []\<rparr>
          (JStr ''Y'') jane) = Inr () \<and>
   credentials (fst (save sample_driver
          \<lparr>db = True, credentials = [(''X'', Serialized JNull)], statements = []\<rparr>
          (JStr ''Y'') jane)) = [(''X'', Serialized JNull), (''Y'', Serialized jane)]"
  using save_refuses_existing_id
    [of sample_driver "JStr ''X''"
        "\<lparr>db = True, credentials = [(''X'', Serialized JNull)], statements = []\<rparr>" jane]
    save_refuses_existing_id
    [of sample_driver "JStr ''Y''"
        "\<lparr>db = True, credentials = [(''X'', Serialized JNull)], statements = []\<rparr>" jane]
  by (simp add: bind_id_def JSON_stringify_def jane_def)

section \<open>Properties of the routes\<close>

lemma issue_None: "issue drv e s None = (s, message 400 ''Invalid credential format'')"
  by (simp add: issue_def issue_check_def)

lemma issue_rejected:
  "\<not> truthy c \<or> typeof c \<noteq> ''object'' \<Longrightarrow>
     issue drv e s (Some c) = (s, message 400 ''Invalid credential format'')"
  by (simp add: issue_def issue_check_def)

lemma issue_check_accepted:
  "truthy c \<Longrightarrow> typeof c = ''object'' \<Longrightarrow>
     issue_check drv e s (Some c) =
       (sent (SELECT_id (bind_id drv (resolve_id e c))) (ensure_db s),
        Checked (resolve_id e c) (JObj (AList.update ''id'' (resolve_id e c) (spread c)))
          (bind_id drv (resolve_id e c) \<in> fst ` set (credentials s)))"
  by (simp add: issue_check_def exists_id_eq Let_def)

text \<open>
  The second half on what the first half hands over, for an id that a log line can
  hold and for one that it cannot.
\<close>

lemma issue_save_logged:
  "\<not> ToString_throws cid \<Longrightarrow>
     issue_save drv e s (Checked cid w found) =
       (if found then (s, message 409 ''Credential already issued'')
        else if bind_id drv cid \<in> fst ` set (credentials s)
        then (sent (INSERT (bind_id drv cid)) (ensure_db s),
              message 500 ''Internal server error'')
        else ((sent (INSERT (bind_id drv cid)) (ensure_db s))
                \<lparr>credentials := credentials s @
                   [(bind_id drv cid,
                     JSON_stringify (JObj [(''credential'', w),
                                           (''worker'', JStr (WORKER_ID e)),
                                           (''timestamp'', JStr (date_saved e))]))]\<rparr>,
              \<lparr>status = 201,
                 body = JObj [(''message'', JStr (''Credential issued by '' @ WORKER_ID e)),
                              (''worker'', JStr (WORKER_ID e)),
                              (''credentialId'', cid),
                              (''timestamp'', JStr (date_replied e))]\<rparr>))"
  by (simp add: save_eq log_id_def)

lemma issue_save_throws:
  "ToString_throws cid \<Longrightarrow>
     issue_save drv e s (Checked cid w found) =
       (if found then (s, message 500 ''Internal server error'')
        else if bind_id drv cid \<in> fst ` set (credentials s)
        then (sent (INSERT (bind_id drv cid)) (ensure_db s),
              message 500 ''Internal server error'')
        else ((sent (INSERT (bind_id drv cid)) (ensure_db s))
                \<lparr>credentials := credentials s @
                   [(bind_id drv cid,
                     JSON_stringify (JObj [(''credential'', w),
                                           (''worker'', JStr (WORKER_ID e)),
                                           (''timestamp'', JStr (date_saved e))]))]\<rparr>,
              message 500 ''Internal server error''))"
  by (simp add: save_eq log_id_def)

lemma issue_accepted:
  "truthy c \<Longrightarrow> typeof c = ''object'' \<Longrightarrow> \<not> ToString_throws (resolve_id e c) \<Longrightarrow>
     issue drv e s (Some c) =
       (if bind_id drv (resolve_id e c) \<in> fst ` set (credentials s)
        then (sent (SELECT_id (bind_id drv (resolve_id e c))) (ensure_db s),
              message 409 ''Credential already issued'')
        else ((sent (INSERT (bind_id drv (resolve_id e c)))
                (sent (SELECT_id (bind_id drv (resolve_id e c))) (ensure_db s)))
                \<lparr>credentials := credentials s @
                   [(bind_id drv (resolve_id e c),
                     JSON_stringify
                       (JObj [(''credential'',
                                 JObj (AList.update ''id'' (resolve_id e c) (spread c))),
                              (''worker'', JStr (WORKER_ID e)),
                              (''timestamp'', JStr (date_saved e))]))]\<rparr>,
              \<lparr>status = 201,
                 body = JObj [(''message'', JStr (''Credential issued by '' @ WORKER_ID e)),
                              (''worker'', JStr (WORKER_ID e)),
                              (''credentialId'', resolve_id e c),
                              (''timestamp'', JStr (date_replied e))]\<rparr>))"
  by (simp add: issue_def issue_check_accepted issue_save_logged del: issue_save.simps)

lemma issue_accepted_throws:
  "truthy c \<Longrightarrow> typeof c = ''object'' \<Longrightarrow> ToString_throws (resolve_id e c) \<Longrightarrow>
     issue drv e s (Some c) =
       (if bind_id drv (resolve_id e c) \<in> fst ` set (credentials s)
        then (sent (SELECT_id (bind_id drv (resolve_id e c))) (ensure_db s),
              message 500 ''Internal server error'')
        else ((sent (INSERT (bind_id drv (resolve_id e c)))
                (sent (SELECT_id (bind_id drv (resolve_id e c))) (ensure_db s)))
                \<lparr>credentials := credentials s @
                   [(bind_id drv (resolve_id e c),
                     JSON_stringify
                       (JObj [(''credential'',
                                 JObj (AList.update ''id'' (resolve_id e c) (spread c))),
                              (''worker'', JStr (WORKER_ID e)),
                              (''timestamp'', JStr (date_saved e))]))]\<rparr>,
              message 500 ''Internal server error''))"
  by (simp add: issue_def issue_check_accepted issue_save_throws del: issue_save.simps)

lemma verify_None: "verify drv s None = (s, message 400 ''Invalid credential format'')"
  by (simp add: verify_def)

lemma verify_rejected:
  "\<not> truthy c \<or> typeof c \<noteq> ''object'' \<Longrightarrow>
     verify drv s (Some c) = (s, message 400 ''Invalid credential format'')"
  by (simp add: verify_def)

lemma verify_no_id:
  "truthy c \<Longrightarrow> typeof c = ''object'' \<Longrightarrow> read_prop c ''id'' = None \<Longrightarrow>
     verify drv s (Some c) = (s, message 400 ''Credential ID is required'')"
  by (simp add: verify_def)

lemma verify_falsy:
  "truthy c \<Longrightarrow> typeof c = ''object'' \<Longrightarrow> read_prop c ''id'' = Some v \<Longrightarrow> \<not> truthy v \<Longrightarrow>
     verify drv s (Some c) = (s, message 400 ''Credential ID is required'')"
  by (simp add: verify_def)

lemma verify_lookup:
  "truthy c \<Longrightarrow> typeof c = ''object'' \<Longrightarrow> read_prop c ''id'' = Some v \<Longrightarrow> truthy v \<Longrightarrow>
     verify drv s (Some c) =
       (sent (SELECT_data (bind_id drv v)) (ensure_db s),
        if ToString_throws v then message 500 ''Internal server error''
        else
          case map_of (credentials s) (bind_id drv v) of
            None \<Rightarrow> \<lparr>status = 404,
                      body = JObj [(''status'', JStr ''invalid''),
                                   (''message'', JStr ''Credential not found'')]\<rparr>
          | Some (NotJson t) \<Rightarrow> message 500 ''Internal server error''
          | Some (Serialized credentialData) \<Rightarrow>
              if \<not> truthy credentialData
              then \<lparr>status = 404,
                     body = JObj [(''status'', JStr ''invalid''),
                                  (''message'', JStr ''Credential not found'')]\<rparr>
              else \<lparr>status = 200,
                     body = JObj (json_obj
                       [(''status'', Some (JStr ''valid'')),
                        (''worker'', read_prop credentialData ''worker''),
                        (''timestamp'', read_prop credentialData ''timestamp''),
                        (''credential'', read_prop credentialData ''credential'')])\<rparr>)"
  by (simp add: verify_def get_eq log_id_def split: option.split sqltext.split)

lemma credentials_verify: "credentials (fst (verify drv s b)) = credentials s"
proof (cases b)
  case None
  then show ?thesis by (simp add: verify_None)
next
  case (Some c)
  show ?thesis
  proof (cases "truthy c \<and> typeof c = ''object''")
    case False
    with Some show ?thesis by (simp add: verify_rejected)
  next
    case True
    show ?thesis
    proof (cases "read_prop c ''id''")
      case None
      with Some True show ?thesis by (simp add: verify_no_id)
    next
      case (Some v)
      with \<open>b = Some c\<close> True show ?thesis
        by (cases "truthy v") (simp_all add: verify_falsy verify_lookup)
    qed
  qed
qed

lemma status_verify: "status (snd (verify drv s b)) \<noteq> 201"
proof (cases b)
  case None
  then show ?thesis by (simp add: verify_None message_def)
next
  case (Some c)
  show ?thesis
  proof (cases "truthy c \<and> typeof c = ''object''")
    case False
    with Some show ?thesis by (simp add: verify_rejected message_def)
  next
    case True
    show ?thesis
    proof (cases "read_prop c ''id''")
      case None
      with Some True show ?thesis by (simp add: verify_no_id message_def)
    next
      case (Some v)
      with \<open>b = Some c\<close> True show ?thesis
        by (cases "truthy v")
           (simp_all add: verify_falsy verify_lookup message_def split: option.split sqltext.split)
    qed
  qed
qed

text \<open>The definitions a concrete request is evaluated with.\<close>

lemmas eval_simps = new_db_def reads_a_def reads_b_def cred_x_def ask_x_def jane_def
  odd_id_def cred_odd_def cred_big_def
  sample_driver_def bind_id_def issue_def issue_check_def exists_id_def save_def get_def
  verify_def resolve_id_def sent_def ensure_db_def init_def sql_insert_def JSON_stringify_def
  log_id_def message_def Let_def issued_as_def issued_id_def

subsection \<open>Falsy ids\<close>

lemma resolve_id_falsy:
  "map_of ps ''id'' = Some v \<Longrightarrow> \<not> truthy v \<Longrightarrow> resolve_id e (JObj ps) = JStr (uuidv4 e)"
  by (simp add: resolve_id_def)

lemma resolve_id_truthy:
  "map_of ps ''id'' = Some v \<Longrightarrow> truthy v \<Longrightarrow> resolve_id e (JObj ps) = v"
  by (simp add: resolve_id_def)

lemma ToString_throws_truthy: "ToString_throws v \<Longrightarrow> truthy v"
  by (cases v) simp_all

text \<open>
  C10. A verify request whose body is an object with a falsy \<^verbatim>\<open>id\<close> is answered 400
  with the message \<^verbatim>\<open>Credential ID is required\<close>, and the storage is returned as it
  was given: no statement was sent, so nothing was looked up, and the answer is not
  the 404 of an unknown id.
\<close>

theorem verify_falsy_id_rejected:
  assumes "map_of ps ''id'' = Some v" and "\<not> truthy v"
  shows "verify drv s (Some (JObj ps)) = (s, message 400 ''Credential ID is required'')"
  using assms by (simp add: verify_falsy)

text \<open>The four falsy JSON values, on a database that was never opened.\<close>

theorem verify_falsy_id_rejected_witness:
  "verify sample_driver new_db (Some (JObj [(''id'', JStr '''')])) =
     (new_db, message 400 ''Credential ID is required'') \<and>
   verify sample_driver new_db (Some (JObj [(''id'', JNum 0)])) =
     (new_db, message 400 ''Credential ID is required'') \<and>
   verify sample_driver new_db (Some (JObj [(''id'', JBool False)])) =
     (new_db, message 400 ''Credential ID is required'') \<and>
   verify sample_driver new_db (Some (JObj [(''id'', JNull)])) =
     (new_db, message 400 ''Credential ID is required'') \<and>
   statements new_db = []"
  using verify_falsy_id_rejected [of "[(''id'', JStr '''')]" "JStr ''''" sample_driver new_db]
    verify_falsy_id_rejected [of "[(''id'', JNum 0)]" "JNum 0" sample_driver new_db]
    verify_falsy_id_rejected [of "[(''id'', JBool False)]" "JBool False" sample_driver new_db]
    verify_falsy_id_rejected [of "[(''id'', JNull)]" "JNull" sample_driver new_db]
  by (simp add: new_db_def)

text \<open>
  C9. An issue request whose body is an object with a falsy \<^verbatim>\<open>id\<close> is not answered
  400. The id it resolves to is the generated one; when that has no row yet, the
  answer is 201 with the generated id as \<^verbatim>\<open>credentialId\<close>, and the stored credential
  holds the generated id in place of the one supplied.
\<close>

theorem issue_falsy_id_generates:
  assumes "map_of ps ''id'' = Some v" and "\<not> truthy v"
  shows "resolve_id e (JObj ps) = JStr (uuidv4 e) \<and>
         status (snd (issue drv e s (Some (JObj ps)))) \<noteq> 400 \<and>
         (uuidv4 e \<notin> fst ` set (credentials s) \<longrightarrow>
            snd (issue drv e s (Some (JObj ps))) =
              \<lparr>status = 201,
                 body = JObj [(''message'', JStr (''Credential issued by '' @ WORKER_ID e)),
                              (''worker'', JStr (WORKER_ID e)),
                              (''credentialId'', JStr (uuidv4 e)),
                              (''timestamp'', JStr (date_replied e))]\<rparr> \<and>
            credentials (fst (issue drv e s (Some (JObj ps)))) =
              credentials s @
                [(uuidv4 e,
                  JSON_stringify (JObj [(''credential'',
                                     JObj (AList.update ''id'' (JStr (uuidv4 e)) ps)),
                                    (''worker'', JStr (WORKER_ID e)),
                                    (''timestamp'', JStr (date_saved e))]))])"
  using assms by (simp add: issue_accepted resolve_id_falsy bind_id_def message_def)

theorem issue_falsy_id_generates_witness:
  "snd (issue sample_driver reads_a new_db
          (Some (JObj [(''id'', JStr ''''), (''name'', JStr ''Jane'')]))) =
     \<lparr>status = 201,
        body = JObj [(''message'', JStr ''Credential issued by worker-1''),
                     (''worker'', JStr ''worker-1''),
                     (''credentialId'', JStr ''0b5e1c1e-aaaa''),
                     (''timestamp'', JStr ''2025-10-07T08:10:11.634Z'')]\<rparr> \<and>
   credentials (fst (issue sample_driver reads_a new_db
          (Some (JObj [(''id'', JStr ''''), (''name'', JStr ''Jane'')])))) =
     [(''0b5e1c1e-aaaa'',
       Serialized (JObj [(''credential'',
                          JObj [(''id'', JStr ''0b5e1c1e-aaaa''), (''name'', JStr ''Jane'')]),
                         (''worker'', JStr ''worker-1''),
                         (''timestamp'', JStr ''2025-10-07T08:10:11.611Z'')]))] \<and>
   resolve_id reads_a (JObj [(''id'', JNum 0)]) = JStr ''0b5e1c1e-aaaa'' \<and>
   resolve_id reads_a (JObj [(''id'', JBool False)]) = JStr ''0b5e1c1e-aaaa'' \<and>
   resolve_id reads_a (JObj [(''id'', JNull)]) = JStr ''0b5e1c1e-aaaa''"
  using issue_falsy_id_generates
    [of "[(''id'', JStr ''''), (''name'', JStr ''Jane'')]" "JStr ''''" reads_a sample_driver new_db]
    issue_falsy_id_generates [of "[(''id'', JNum 0)]" "JNum 0" reads_a sample_driver new_db]
    issue_falsy_id_generates [of "[(''id'', JBool False)]" "JBool False" reads_a sample_driver new_db]
    issue_falsy_id_generates [of "[(''id'', JNull)]" "JNull" reads_a sample_driver new_db]
  by (simp add: new_db_def reads_a_def JSON_stringify_def)

subsection \<open>Bodies that are not objects\<close>

text \<open>
  Null and every value whose \<^verbatim>\<open>typeof\<close> is not \<^verbatim>\<open>'object'\<close> (a string, a number, a
  boolean) are answered 400 by both routes, and the storage is returned as it was
  given. So is a request without a body. The verify route answers an array 400 as
  well, since an array has no \<^verbatim>\<open>id\<close>.
\<close>

lemma non_object_rejected:
  assumes "c = JNull \<or> typeof c \<noteq> ''object''"
  shows "issue drv e s (Some c) = (s, message 400 ''Invalid credential format'')"
    and "verify drv s (Some c) = (s, message 400 ''Invalid credential format'')"
  using assms by (auto simp: issue_rejected verify_rejected)

lemma no_body_rejected:
  "issue drv e s None = (s, message 400 ''Invalid credential format'')"
  "verify drv s None = (s, message 400 ''Invalid credential format'')"
  by (simp_all add: issue_None verify_None)

lemma verify_array_rejected:
  "verify drv s (Some (JArr xs)) = (s, message 400 ''Credential ID is required'')"
  by (simp add: verify_no_id)

text \<open>
  C6 fails on the issue route for an array. \<^verbatim>\<open>typeof []\<close> is \<^verbatim>\<open>'object'\<close> and an
  array is truthy, so the guard of line 61 lets it through: when the generated id has
  no row yet, the request is answered 201 and a row is written, whose credential is
  the entries of the array under their indices, and the id.
\<close>

theorem issue_array_body_stored:
  assumes "uuidv4 e \<notin> fst ` set (credentials s)"
  shows "status (snd (issue drv e s (Some (JArr xs)))) = 201 \<and>
         credentials (fst (issue drv e s (Some (JArr xs)))) =
           credentials s @
             [(uuidv4 e,
               JSON_stringify (JObj [(''credential'',
                                  JObj (AList.update ''id'' (JStr (uuidv4 e)) (spread (JArr xs)))),
                                 (''worker'', JStr (WORKER_ID e)),
                                 (''timestamp'', JStr (date_saved e))]))]"
  using assms by (simp add: issue_accepted resolve_id_def bind_id_def)

text \<open>The empty array, and an array of two entries, stored under the names 0 and 1.\<close>

lemma index_chars: "char_of (48::nat) = CHR ''0''" "char_of (49::nat) = CHR ''1''"
  by code_simp+

theorem issue_array_body_stored_witness:
  "status (snd (issue sample_driver reads_a new_db (Some (JArr [])))) = 201 \<and>
   credentials (fst (issue sample_driver reads_a new_db (Some (JArr [])))) =
     [(''0b5e1c1e-aaaa'',
       Serialized (JObj [(''credential'', JObj [(''id'', JStr ''0b5e1c1e-aaaa'')]),
                         (''worker'', JStr ''worker-1''),
                         (''timestamp'', JStr ''2025-10-07T08:10:11.611Z'')]))] \<and>
   status (snd (issue sample_driver reads_a new_db (Some (JArr [JStr ''a'', JNum 2])))) = 201 \<and>
   credentials (fst (issue sample_driver reads_a new_db (Some (JArr [JStr ''a'', JNum 2])))) =
     [(''0b5e1c1e-aaaa'',
       Serialized (JObj [(''credential'',
                          JObj [(''0'', JStr ''a''), (''1'', JNum 2),
                                (''id'', JStr ''0b5e1c1e-aaaa'')]),
                         (''worker'', JStr ''worker-1''),
                         (''timestamp'', JStr ''2025-10-07T08:10:11.611Z'')]))]"
  using issue_array_body_stored [of reads_a new_db sample_driver "[]"]
    issue_array_body_stored [of reads_a new_db sample_driver "[JStr ''a'', JNum 2]"]
  by (simp add: new_db_def reads_a_def upt_rec index_chars JSON_stringify_def)

section \<open>Properties of a run of requests\<close>

text \<open>
  What one request does to the table: it leaves it as it is, or appends one row, a
  JSON text under an id that had no row. A response that reports an issued id comes
  with that row, under that id.
\<close>

lemma issued_id_message [simp]: "code \<noteq> 201 \<Longrightarrow> issued_id (message code m) = None"
  by (simp add: issued_id_def message_def)

lemma JSON_stringify_Serialized: "\<exists>d. JSON_stringify v = Serialized d"
  by (simp add: JSON_stringify_def)

lemma issue_rows:
  "credentials (fst (issue drv e s b)) = credentials s \<or>
   (\<exists>k d. k \<notin> fst ` set (credentials s) \<and>
          credentials (fst (issue drv e s b)) = credentials s @ [(k, Serialized d)])"
proof (cases b)
  case None
  then show ?thesis by (simp add: issue_None)
next
  case (Some c)
  show ?thesis
  proof (cases "truthy c \<and> typeof c = ''object''")
    case False
    with Some show ?thesis by (simp add: issue_rejected)
  next
    case True
    show ?thesis
    proof (cases "ToString_throws (resolve_id e c)")
      case False
      with Some True show ?thesis
        by (simp add: issue_accepted JSON_stringify_def)
    next
      case throws: True
      with Some True show ?thesis
        by (simp add: issue_accepted_throws JSON_stringify_def)
    qed
  qed
qed

lemma issue_issued:
  assumes "issued_id (snd (issue drv e s b)) = Some cid"
  shows "bind_id drv cid \<notin> fst ` set (credentials s) \<and>
         (\<exists>d. credentials (fst (issue drv e s b)) =
                credentials s @ [(bind_id drv cid, Serialized d)])"
proof (cases b)
  case None
  with assms show ?thesis by (simp add: issue_None)
next
  case (Some c)
  show ?thesis
  proof (cases "truthy c \<and> typeof c = ''object''")
    case False
    with Some assms show ?thesis by (simp add: issue_rejected)
  next
    case True
    show ?thesis
    proof (cases "ToString_throws (resolve_id e c)")
      case False
      with Some True assms show ?thesis
        by (simp add: issue_accepted issued_id_def message_def JSON_stringify_def
            split: if_splits)
    next
      case throws: True
      with Some True assms show ?thesis
        by (simp add: issue_accepted_throws split: if_splits)
    qed
  qed
qed

lemma verify_not_issued: "issued_id (snd (verify drv s b)) = None"
  by (simp add: issued_id_def status_verify)

lemma handle_issued:
  "issued_id (snd (handle drv s r)) = Some cid \<Longrightarrow>
     bind_id drv cid \<notin> fst ` set (credentials s) \<and>
     (\<exists>d. credentials (fst (handle drv s r)) =
            credentials s @ [(bind_id drv cid, Serialized d)])"
  by (cases r) (simp_all add: issue_issued verify_not_issued)

lemma handle_rows:
  "credentials (fst (handle drv s r)) = credentials s \<or>
   (\<exists>k d. k \<notin> fst ` set (credentials s) \<and>
          credentials (fst (handle drv s r)) = credentials s @ [(k, Serialized d)])"
proof (cases r)
  case (Issue e b)
  with issue_rows [of drv e s b] show ?thesis by simp
next
  case (Verify b)
  then show ?thesis by (simp add: credentials_verify)
qed

lemma handle_keeps_rows_of:
  assumes "k \<in> fst ` set (credentials s)"
  shows "filter (\<lambda>row. fst row = k) (credentials (fst (handle drv s r))) =
         filter (\<lambda>row. fst row = k) (credentials s) \<and>
         k \<in> fst ` set (credentials (fst (handle drv s r))) \<and>
         \<not> issued_as drv k (snd (handle drv s r))"
proof -
  have kept: "filter (\<lambda>row. fst row = k) (credentials (fst (handle drv s r))) =
              filter (\<lambda>row. fst row = k) (credentials s) \<and>
              k \<in> fst ` set (credentials (fst (handle drv s r)))"
  proof -
    from handle_rows [of drv s r] consider
      (same) "credentials (fst (handle drv s r)) = credentials s"
      | (more) k' d where "k' \<notin> fst ` set (credentials s)"
          "credentials (fst (handle drv s r)) = credentials s @ [(k', Serialized d)]"
      by blast
    then show ?thesis
    proof cases
      case same
      with assms show ?thesis by simp
    next
      case more
      from more(1) assms have "k' \<noteq> k" by blast
      with more(2) assms show ?thesis by simp
    qed
  qed
  have "\<not> issued_as drv k (snd (handle drv s r))"
  proof (cases "issued_id (snd (handle drv s r))")
    case None
    then show ?thesis by (simp add: issued_as_def)
  next
    case (Some cid)
    from handle_issued [OF Some] assms have "bind_id drv cid \<noteq> k" by auto
    with Some show ?thesis by (simp add: issued_as_def)
  qed
  with kept show ?thesis by simp
qed

lemma serve_keeps_rows_of:
  "k \<in> fst ` set (credentials s) \<Longrightarrow>
     filter (\<lambda>row. fst row = k) (credentials (serve drv s rs)) =
       filter (\<lambda>row. fst row = k) (credentials s) \<and>
     k \<in> fst ` set (credentials (serve drv s rs)) \<and>
     (\<forall>r \<in> set (replies drv s rs). \<not> issued_as drv k r)"
proof (induction rs arbitrary: s)
  case Nil
  then show ?case by simp
next
  case (Cons r rs)
  from handle_keeps_rows_of [OF Cons.prems, of drv r]
  have step: "filter (\<lambda>row. fst row = k) (credentials (fst (handle drv s r))) =
              filter (\<lambda>row. fst row = k) (credentials s)"
    and still: "k \<in> fst ` set (credentials (fst (handle drv s r)))"
    and lost: "\<not> issued_as drv k (snd (handle drv s r))"
    by simp_all
  from Cons.IH [OF still] step lost show ?case by simp
qed

lemma map_of_filter_key:
  "map_of (filter (\<lambda>row. fst row = k) rows) k = map_of rows k"
  by (induction rows) auto

lemma serve_keeps_lookup:
  assumes "map_of (credentials s) k = Some d"
  shows "map_of (credentials (serve drv s rs)) k = Some d"
proof -
  from assms have "k \<in> fst ` set (credentials s)"
    by (metis map_of_None_keys option.distinct(1))
  from serve_keeps_rows_of [OF this, of drv rs]
  have "filter (\<lambda>row. fst row = k) (credentials (serve drv s rs)) =
        filter (\<lambda>row. fst row = k) (credentials s)" by simp
  then have "map_of (credentials (serve drv s rs)) k = map_of (credentials s) k"
    by (metis map_of_filter_key)
  with assms show ?thesis by simp
qed

lemma handle_all_json:
  "list_all (\<lambda>row. is_json (snd row)) (credentials s) \<Longrightarrow>
     list_all (\<lambda>row. is_json (snd row)) (credentials (fst (handle drv s r)))"
  using handle_rows [of drv s r] by auto

lemma serve_all_json:
  "list_all (\<lambda>row. is_json (snd row)) (credentials s) \<Longrightarrow>
     list_all (\<lambda>row. is_json (snd row)) (credentials (serve drv s rs))"
  by (induction rs arbitrary: s) (simp_all add: handle_all_json)

lemma handle_issued_as_stored:
  assumes "issued_as drv k (snd (handle drv s r))"
  shows "k \<in> fst ` set (credentials (fst (handle drv s r)))"
proof -
  from assms obtain cid where cid: "issued_id (snd (handle drv s r)) = Some cid"
    and k: "bind_id drv cid = k"
    by (auto simp: issued_as_def split: option.splits)
  from handle_issued [OF cid] k show ?thesis by auto
qed

lemma at_most_one_issuance:
  "length (filter (issued_as drv k) (replies drv s rs)) \<le> 1"
proof (induction rs arbitrary: s)
  case Nil
  then show ?case by simp
next
  case (Cons r rs)
  show ?case
  proof (cases "issued_as drv k (snd (handle drv s r))")
    case False
    with Cons.IH [of "fst (handle drv s r)"] show ?thesis by simp
  next
    case True
    then have "k \<in> fst ` set (credentials (fst (handle drv s r)))"
      by (rule handle_issued_as_stored)
    from serve_keeps_rows_of [OF this, of drv rs]
    have "\<forall>x \<in> set (replies drv (fst (handle drv s r)) rs). \<not> issued_as drv k x" by simp
    then have "filter (issued_as drv k) (replies drv (fst (handle drv s r)) rs) = []"
      by (simp add: filter_empty_conv)
    with True show ?thesis by simp
  qed
qed

text \<open>A value without an infinity is written as it is.\<close>

lemma written_finite: "all_finite v \<Longrightarrow> written v = v"
proof (induction v)
  case (JArr xs)
  then show ?case by (auto simp: map_idI)
next
  case (JObj ps)
  have "map (\<lambda>(k, x). (k, written x)) ps = ps"
  proof (rule map_idI)
    fix p assume p: "p \<in> set ps"
    obtain k x where kx: "p = (k, x)" by (cases p)
    with p JObj.prems have "all_finite x" by auto
    with JObj.IH [of p x] p kx have "written x = x" by simp
    with kx show "(case p of (k, x) \<Rightarrow> (k, written x)) = p" by simp
  qed
  then show ?case by simp
qed simp_all

subsection \<open>Issuance\<close>

text \<open>
  C7, as amended. A request that is rejected or meets a conflict leaves the table as
  it was: so does every issue request that is not answered 201, when the id it
  resolves to can be written into a log line. One that is answered 201 has appended
  exactly one row, under the resolved id, which had no row before; the row holds the
  credential with its id, the worker and the time read while the record was built
  (\<open>date_saved\<close>). The response carries the resolved id, the same worker, and the time
  read while the response was built (\<open>date_replied\<close>): a second reading of the clock,
  which is the time in the row only if the clock did not move in between.
\<close>

theorem issue_effect:
  "credentials (fst (issue drv e s None)) = credentials s \<and>
   (status (snd (issue drv e s (Some c))) \<noteq> 201 \<longrightarrow>
      \<not> ToString_throws (resolve_id e c) \<longrightarrow>
      credentials (fst (issue drv e s (Some c))) = credentials s) \<and>
   (status (snd (issue drv e s (Some c))) = 201 \<longrightarrow>
      bind_id drv (resolve_id e c) \<notin> fst ` set (credentials s) \<and>
      credentials (fst (issue drv e s (Some c))) =
        credentials s @
          [(bind_id drv (resolve_id e c),
            JSON_stringify (JObj [(''credential'',
                                     JObj (AList.update ''id'' (resolve_id e c) (spread c))),
                                  (''worker'', JStr (WORKER_ID e)),
                                  (''timestamp'', JStr (date_saved e))]))] \<and>
      snd (issue drv e s (Some c)) =
        \<lparr>status = 201,
           body = JObj [(''message'', JStr (''Credential issued by '' @ WORKER_ID e)),
                        (''worker'', JStr (WORKER_ID e)),
                        (''credentialId'', resolve_id e c),
                        (''timestamp'', JStr (date_replied e))]\<rparr>)"
proof (cases "truthy c \<and> typeof c = ''object''")
  case False
  then show ?thesis by (simp add: issue_None issue_rejected message_def)
next
  case True
  show ?thesis
  proof (cases "ToString_throws (resolve_id e c)")
    case False
    with True show ?thesis by (simp add: issue_None issue_accepted message_def)
  next
    case throws: True
    with True show ?thesis by (simp add: issue_None issue_accepted_throws message_def)
  qed
qed

theorem issue_effect_witness:
  "credentials (fst (issue sample_driver reads_a new_db (Some jane))) =
     [(''0b5e1c1e-aaaa'',
       Serialized (JObj [(''credential'',
                          JObj [(''name'', JStr ''Jane''), (''id'', JStr ''0b5e1c1e-aaaa'')]),
                         (''worker'', JStr ''worker-1''),
                         (''timestamp'', JStr ''2025-10-07T08:10:11.611Z'')]))] \<and>
   snd (issue sample_driver reads_a new_db (Some jane)) =
     \<lparr>status = 201,
        body = JObj [(''message'', JStr ''Credential issued by worker-1''),
                     (''worker'', JStr ''worker-1''),
                     (''credentialId'', JStr ''0b5e1c1e-aaaa''),
                     (''timestamp'', JStr ''2025-10-07T08:10:11.634Z'')]\<rparr> \<and>
   credentials (fst (issue sample_driver reads_b
     (fst (issue sample_driver reads_a new_db (Some cred_x))) (Some cred_x))) =
   credentials (fst (issue sample_driver reads_a new_db (Some cred_x)))"
  using issue_effect [of sample_driver reads_a new_db jane]
    issue_effect [of sample_driver reads_b
      "fst (issue sample_driver reads_a new_db (Some cred_x))" cred_x]
  by (simp add: eval_simps)

text \<open>
  C7 as stated fails: the clock advances while the save runs, and the time in the
  response is not the time in the row.
\<close>

theorem issue_reply_timestamp_differs:
  "status (snd (issue sample_driver reads_a new_db (Some jane))) = 201 \<and>
   read_prop (body (snd (issue sample_driver reads_a new_db (Some jane)))) ''timestamp'' =
     Some (JStr ''2025-10-07T08:10:11.634Z'') \<and>
   credentials (fst (issue sample_driver reads_a new_db (Some jane))) =
     [(''0b5e1c1e-aaaa'',
       Serialized (JObj [(''credential'',
                          JObj [(''name'', JStr ''Jane''), (''id'', JStr ''0b5e1c1e-aaaa'')]),
                         (''worker'', JStr ''worker-1''),
                         (''timestamp'', JStr ''2025-10-07T08:10:11.611Z'')]))]"
  by (simp add: eval_simps)

text \<open>
  The amended claim is silent on the request whose id cannot be written into a log
  line. When that id has no row, the save runs, the log line of line 84 throws, and
  the request is answered 500 with its row in the table.
\<close>

lemma issue_unlogged_id_stored:
  assumes "map_of ps ''id'' = Some v" and "ToString_throws v"
      and "bind_id drv v \<notin> fst ` set (credentials s)"
  shows "snd (issue drv e s (Some (JObj ps))) = message 500 ''Internal server error''"
    and "credentials (fst (issue drv e s (Some (JObj ps)))) =
           credentials s @
             [(bind_id drv v,
               JSON_stringify (JObj [(''credential'', JObj (AList.update ''id'' v ps)),
                                     (''worker'', JStr (WORKER_ID e)),
                                     (''timestamp'', JStr (date_saved e))]))]"
proof -
  from assms(1,2) have "resolve_id e (JObj ps) = v"
    by (simp add: resolve_id_truthy ToString_throws_truthy)
  with assms show
    "snd (issue drv e s (Some (JObj ps))) = message 500 ''Internal server error''"
    "credentials (fst (issue drv e s (Some (JObj ps)))) =
           credentials s @
             [(bind_id drv v,
               JSON_stringify (JObj [(''credential'', JObj (AList.update ''id'' v ps)),
                                     (''worker'', JStr (WORKER_ID e)),
                                     (''timestamp'', JStr (date_saved e))]))]"
    by (simp_all add: issue_accepted_throws)
qed

text \<open>
  What holds of C1. In every run of requests, \<open>rs0\<close> from \<open>s0\<close>, at most one response
  reports an issuance under the id \<open>v\<close>. And once \<open>v\<close> has a row, then after any
  further requests \<open>rs\<close>: the rows under that id are the ones there were; none of the
  responses to \<open>rs\<close> reports an issuance under that id; and an issue request that
  carries \<open>v\<close> leaves the table as it is, and is answered 409 when \<open>v\<close> can be written
  into a log line. The conflict is decided when \<^verbatim>\<open>exists\<close> answers: whatever state
  \<open>s2\<close> the storage is in when the handler resumes, it answers 409 and sends nothing.
\<close>

lemma issue_same_id_conflicts:
  assumes stored: "bind_id drv v \<in> fst ` set (credentials s)"
      and carried: "map_of ps ''id'' = Some v" "truthy v"
      and logged: "\<not> ToString_throws v"
  shows "length (filter (issued_as drv (bind_id drv v)) (replies drv s0 rs0)) \<le> 1 \<and>
         filter (\<lambda>row. fst row = bind_id drv v) (credentials (serve drv s rs)) =
           filter (\<lambda>row. fst row = bind_id drv v) (credentials s) \<and>
         (\<forall>r \<in> set (replies drv s rs). \<not> issued_as drv (bind_id drv v) r) \<and>
         snd (issue drv e (serve drv s rs) (Some (JObj ps))) =
           message 409 ''Credential already issued'' \<and>
         credentials (fst (issue drv e (serve drv s rs) (Some (JObj ps)))) =
           credentials (serve drv s rs) \<and>
         issue_save drv e s2 (snd (issue_check drv e (serve drv s rs) (Some (JObj ps)))) =
           (s2, message 409 ''Credential already issued'')"
proof -
  from serve_keeps_rows_of [OF stored, of drv rs]
  have same: "filter (\<lambda>row. fst row = bind_id drv v) (credentials (serve drv s rs)) =
              filter (\<lambda>row. fst row = bind_id drv v) (credentials s)"
    and still: "bind_id drv v \<in> fst ` set (credentials (serve drv s rs))"
    and none: "\<forall>r \<in> set (replies drv s rs). \<not> issued_as drv (bind_id drv v) r"
    by simp_all
  from carried have id: "resolve_id e (JObj ps) = v"
    by (rule resolve_id_truthy)
  with still logged have served: "issue drv e (serve drv s rs) (Some (JObj ps)) =
      (sent (SELECT_id (bind_id drv v)) (ensure_db (serve drv s rs)),
       message 409 ''Credential already issued'')"
    by (simp add: issue_accepted)
  from id still logged have later:
    "issue_save drv e s2 (snd (issue_check drv e (serve drv s rs) (Some (JObj ps)))) =
       (s2, message 409 ''Credential already issued'')"
    by (simp add: issue_check_accepted issue_save_logged del: issue_save.simps)
  from same none served later at_most_one_issuance [of drv "bind_id drv v" s0 rs0]
  show ?thesis by simp
qed

text \<open>
  C1 fails for an id that cannot be written into a log line, such as
  \<^verbatim>\<open>{"toString": 1}\<close>. When such an id has a row, an issue request that carries it
  meets the conflict, the log line of line 73 throws before the 409 is sent, and the
  \<^verbatim>\<open>catch\<close> answers 500. The table stays as it was.
\<close>

theorem issue_same_id_answers_500:
  assumes stored: "bind_id drv v \<in> fst ` set (credentials s)"
      and carried: "map_of ps ''id'' = Some v"
      and throws: "ToString_throws v"
  shows "snd (issue drv e s (Some (JObj ps))) = message 500 ''Internal server error'' \<and>
         credentials (fst (issue drv e s (Some (JObj ps)))) = credentials s"
proof -
  from carried throws have "resolve_id e (JObj ps) = v"
    by (simp add: resolve_id_truthy ToString_throws_truthy)
  with stored throws show ?thesis
    by (simp add: issue_accepted_throws)
qed

text \<open>
  The first request for the id writes its row and is answered 500 (line 84); the
  second finds the row and is answered 500 as well.
\<close>

theorem issue_same_id_answers_500_witness:
  "credentials (fst (issue sample_driver reads_a new_db (Some cred_odd))) =
     [(''[object Object]'',
       Serialized (JObj [(''credential'', cred_odd), (''worker'', JStr ''worker-1''),
                         (''timestamp'', JStr ''2025-10-07T08:10:11.611Z'')]))] \<and>
   snd (issue sample_driver reads_b
          (fst (issue sample_driver reads_a new_db (Some cred_odd))) (Some cred_odd)) =
     message 500 ''Internal server error'' \<and>
   credentials (fst (issue sample_driver reads_b
          (fst (issue sample_driver reads_a new_db (Some cred_odd))) (Some cred_odd))) =
     credentials (fst (issue sample_driver reads_a new_db (Some cred_odd)))"
  using issue_same_id_answers_500
    [of sample_driver odd_id "fst (issue sample_driver reads_a new_db (Some cred_odd))"
        "[(''id'', odd_id), (''name'', JStr ''Jane'')]" reads_b]
  by (simp add: eval_simps)

subsection \<open>Verification\<close>

text \<open>
  C2, as amended. When the credential \<open>P\<close> (the object with the properties \<open>ps\<close>) is
  issued with status 201, the response names the resolved id, and a verification that
  asks for that id, at once or after any further requests \<open>rs\<close>, is answered 200 with
  the status \<^verbatim>\<open>valid\<close>, the worker and the time stored at issuance, and the
  credential \<open>P\<close> with its \<^verbatim>\<open>id\<close> set to the resolved id, as \<^verbatim>\<open>JSON.stringify\<close>
  wrote it: every infinity in it has become \<^verbatim>\<open>null\<close>, and nothing else has changed.
  A credential without an infinity comes back exactly. The generated id is never the
  empty string, which is the assumption on \<open>uuidv4\<close>.
\<close>

theorem issue_then_verify:
  assumes issued: "issue drv e s (Some (JObj ps)) = (s1, r)" "status r = 201"
      and uuid: "uuidv4 e \<noteq> []"
      and asked: "map_of qs ''id'' = Some (resolve_id e (JObj ps))"
  shows "read_prop (body r) ''credentialId'' = Some (resolve_id e (JObj ps)) \<and>
         snd (verify drv (serve drv s1 rs) (Some (JObj qs))) =
           \<lparr>status = 200,
              body = JObj [(''status'', JStr ''valid''),
                           (''worker'', JStr (WORKER_ID e)),
                           (''timestamp'', JStr (date_saved e)),
                           (''credential'',
                              written (JObj (AList.update ''id'' (resolve_id e (JObj ps)) ps)))]\<rparr> \<and>
         (all_finite (JObj (AList.update ''id'' (resolve_id e (JObj ps)) ps)) \<longrightarrow>
            written (JObj (AList.update ''id'' (resolve_id e (JObj ps)) ps)) =
              JObj (AList.update ''id'' (resolve_id e (JObj ps)) ps))"
proof -
  let ?cid = "resolve_id e (JObj ps)"
  let ?doc = "JObj [(''credential'', JObj (AList.update ''id'' ?cid ps)),
                    (''worker'', JStr (WORKER_ID e)),
                    (''timestamp'', JStr (date_saved e))]"
  have logged: "\<not> ToString_throws ?cid"
  proof
    assume "ToString_throws ?cid"
    with issued show False
      by (auto simp: issue_accepted_throws message_def split: if_splits)
  qed
  with issued have new: "bind_id drv ?cid \<notin> fst ` set (credentials s)"
    by (auto simp: issue_accepted message_def split: if_splits)
  with issued logged
  have rows: "credentials s1 = credentials s @ [(bind_id drv ?cid, JSON_stringify ?doc)]"
    and reply: "read_prop (body r) ''credentialId'' = Some ?cid"
    by (auto simp: issue_accepted)
  from new have "map_of (credentials s) (bind_id drv ?cid) = None"
    by (simp add: map_of_None_keys)
  with rows have "map_of (credentials s1) (bind_id drv ?cid) = Some (JSON_stringify ?doc)"
    by (simp add: map_add_def)
  then have found:
    "map_of (credentials (serve drv s1 rs)) (bind_id drv ?cid) = Some (JSON_stringify ?doc)"
    by (rule serve_keeps_lookup)
  from uuid have "truthy ?cid"
    by (simp add: resolve_id_def split: option.split)
  with asked found logged have "snd (verify drv (serve drv s1 rs) (Some (JObj qs))) =
      \<lparr>status = 200,
         body = JObj [(''status'', JStr ''valid''),
                      (''worker'', JStr (WORKER_ID e)),
                      (''timestamp'', JStr (date_saved e)),
                      (''credential'', written (JObj (AList.update ''id'' ?cid ps)))]\<rparr>"
    by (simp add: verify_lookup JSON_stringify_def)
  with reply show ?thesis by (simp add: written_finite del: written.simps all_finite.simps)
qed

theorem issue_then_verify_witness:
  "snd (verify sample_driver
          (serve sample_driver (fst (issue sample_driver reads_a new_db (Some jane)))
             [Issue reads_b (Some cred_x)])
          (Some (JObj [(''id'', JStr ''0b5e1c1e-aaaa'')]))) =
     \<lparr>status = 200,
        body = JObj [(''status'', JStr ''valid''),
                     (''worker'', JStr ''worker-1''),
                     (''timestamp'', JStr ''2025-10-07T08:10:11.611Z''),
                     (''credential'',
                        JObj [(''name'', JStr ''Jane''), (''id'', JStr ''0b5e1c1e-aaaa'')])]\<rparr>"
  using issue_then_verify
    [of sample_driver reads_a new_db "[(''name'', JStr ''Jane'')]"
        "fst (issue sample_driver reads_a new_db (Some jane))"
        "snd (issue sample_driver reads_a new_db (Some jane))"
        "[(''id'', JStr ''0b5e1c1e-aaaa'')]" "[Issue reads_b (Some cred_x)]"]
  by (simp add: eval_simps)

text \<open>
  C2 as stated fails for a credential with a number beyond the range of a double: the
  body \<^verbatim>\<open>{"limit": 1e400}\<close> is parsed to \<^verbatim>\<open>{limit: Infinity}\<close>, issued with status
  201, and verified as \<^verbatim>\<open>{limit: null, id: ...}\<close>.
\<close>

theorem issue_then_verify_infinity_null:
  "status (snd (issue sample_driver reads_a new_db (Some cred_big))) = 201 \<and>
   cred_big = JObj [(''limit'', JInfinity)] \<and>
   snd (verify sample_driver (fst (issue sample_driver reads_a new_db (Some cred_big)))
          (Some (JObj [(''id'', JStr ''0b5e1c1e-aaaa'')]))) =
     \<lparr>status = 200,
        body = JObj [(''status'', JStr ''valid''),
                     (''worker'', JStr ''worker-1''),
                     (''timestamp'', JStr ''2025-10-07T08:10:11.611Z''),
                     (''credential'',
                        JObj [(''limit'', JNull), (''id'', JStr ''0b5e1c1e-aaaa'')])]\<rparr>"
  by (simp add: eval_simps)

text \<open>
  What holds of C5: for a truthy id that has no row and that can be written into a log
  line, \<^verbatim>\<open>get\<close> returns \<^verbatim>\<open>null\<close> and the verification is answered with the
  \<^verbatim>\<open>invalid\<close> document of the not-found branch.
\<close>

lemma verify_unknown_id_not_found:
  assumes absent: "bind_id drv v \<notin> fst ` set (credentials s)"
      and asked: "map_of qs ''id'' = Some v" "truthy v"
      and logged: "\<not> ToString_throws v"
  shows "snd (get drv s v) = Inr JNull \<and>
         snd (verify drv s (Some (JObj qs))) =
           \<lparr>status = 404,
              body = JObj [(''status'', JStr ''invalid''),
                           (''message'', JStr ''Credential not found'')]\<rparr>"
proof -
  from absent have "map_of (credentials s) (bind_id drv v) = None"
    by (simp add: map_of_None_keys)
  with asked logged show ?thesis by (simp add: verify_lookup get_eq)
qed

text \<open>
  C5 fails for an id that cannot be written into a log line, whether it was ever
  issued or not. \<^verbatim>\<open>get\<close> logs the id in both of its branches (lines 107 and 110) and
  again in its \<^verbatim>\<open>catch\<close> (line 113), so it throws a TypeError in place of returning
  \<^verbatim>\<open>null\<close>, and the verification is answered 500, not with the not-found document.
\<close>

theorem verify_unlogged_id_answers_500:
  assumes asked: "map_of qs ''id'' = Some v" and throws: "ToString_throws v"
  shows "snd (get drv s v) = Inl TypeError \<and>
         snd (verify drv s (Some (JObj qs))) = message 500 ''Internal server error'' \<and>
         credentials (fst (verify drv s (Some (JObj qs)))) = credentials s"
  using assms by (simp add: verify_lookup get_eq ToString_throws_truthy)

theorem verify_unlogged_id_answers_500_witness:
  "credentials new_db = [] \<and>
   snd (get sample_driver new_db odd_id) = Inl TypeError \<and>
   snd (verify sample_driver new_db (Some (JObj [(''id'', odd_id)]))) =
     message 500 ''Internal server error''"
  using verify_unlogged_id_answers_500 [of "[(''id'', odd_id)]" odd_id sample_driver new_db]
  by (simp add: odd_id_def new_db_def)

text \<open>The statements a verify request sends: the table's declaration and one select.\<close>

lemma statements_ensure_db:
  "q \<in> set (statements (ensure_db s)) \<Longrightarrow>
     q \<in> set (statements s) \<or> q = CREATE_TABLE_IF_NOT_EXISTS"
  by (auto simp: ensure_db_def init_def sent_def split: if_splits)

lemma statements_verify:
  assumes "q \<in> set (statements (fst (verify drv s b)))"
  shows "q \<in> set (statements s) \<or> q = CREATE_TABLE_IF_NOT_EXISTS \<or> (\<exists>k. q = SELECT_data k)"
proof (cases b)
  case None
  with assms show ?thesis by (simp add: verify_None)
next
  case (Some c)
  show ?thesis
  proof (cases "truthy c \<and> typeof c = ''object''")
    case False
    with Some assms show ?thesis by (simp add: verify_rejected)
  next
    case True
    show ?thesis
    proof (cases "read_prop c ''id''")
      case None
      with Some True assms show ?thesis by (simp add: verify_no_id)
    next
      case (Some v)
      show ?thesis
      proof (cases "truthy v")
        case False
        with Some True \<open>b = Some c\<close> assms show ?thesis by (simp add: verify_falsy)
      next
        case truthy: True
        with Some True \<open>b = Some c\<close> assms
        have "q \<in> set (statements (ensure_db s)) \<or> q = SELECT_data (bind_id drv v)"
          by (auto simp: verify_lookup sent_def)
        then show ?thesis using statements_ensure_db [of q s] by blast
      qed
    qed
  qed
qed

text \<open>On a table of JSON texts, a 500 of the verify route comes from the id of the request.\<close>

lemma verify_json_rows:
  assumes json: "list_all (\<lambda>row. is_json (snd row)) (credentials s)"
      and failed: "status (snd (verify drv s b)) = 500"
  shows "\<exists>ps v. b = Some (JObj ps) \<and> map_of ps ''id'' = Some v \<and> ToString_throws v"
proof (cases b)
  case None
  with failed show ?thesis by (simp add: verify_None message_def)
next
  case (Some c)
  show ?thesis
  proof (cases "truthy c \<and> typeof c = ''object''")
    case False
    with Some failed show ?thesis by (simp add: verify_rejected message_def)
  next
    case True
    show ?thesis
    proof (cases "read_prop c ''id''")
      case None
      with Some True failed show ?thesis by (simp add: verify_no_id message_def)
    next
      case id: (Some v)
      then obtain ps where c: "c = JObj ps" and v: "map_of ps ''id'' = Some v"
        by (cases c) simp_all
      show ?thesis
      proof (cases "truthy v")
        case False
        with id True Some failed show ?thesis by (simp add: verify_falsy message_def)
      next
        case truthy: True
        have "d \<noteq> NotJson t" if "map_of (credentials s) (bind_id drv v) = Some d" for d t
        proof -
          from that have "(bind_id drv v, d) \<in> set (credentials s)" by (rule map_of_SomeD)
          with json have "is_json d" by (auto simp: list_all_iff)
          then show ?thesis by auto
        qed
        with id True truthy Some failed have "ToString_throws v"
          by (auto simp: verify_lookup message_def split: option.splits sqltext.splits if_splits)
        with Some c v show ?thesis by simp
      qed
    qed
  qed
qed

text \<open>
  C8. A verify request, whatever its body and whatever the storage holds, leaves the
  table as it was and sends no insert. And no record that was stored by \<^verbatim>\<open>save\<close>
  makes it fail: on a table whose cells are JSON texts, as \<^verbatim>\<open>save\<close> writes them,
  and after any further requests, the 500 of the \<^verbatim>\<open>catch\<close> is answered only to a
  request whose own id cannot be written into a log line, whatever the records hold.
\<close>

theorem verify_pure_read:
  "credentials (fst (verify drv s b)) = credentials s \<and>
   INSERT k \<notin> set (statements (fst (verify drv s b))) - set (statements s) \<and>
   (list_all (\<lambda>row. is_json (snd row)) (credentials s) \<longrightarrow>
      status (snd (verify drv (serve drv s rs) b)) = 500 \<longrightarrow>
      (\<exists>ps v. b = Some (JObj ps) \<and> map_of ps ''id'' = Some v \<and> ToString_throws v))"
proof -
  have "INSERT k \<notin> set (statements (fst (verify drv s b))) - set (statements s)"
    using statements_verify [of "INSERT k" drv s b] by auto
  moreover have "\<exists>ps v. b = Some (JObj ps) \<and> map_of ps ''id'' = Some v \<and> ToString_throws v"
    if "list_all (\<lambda>row. is_json (snd row)) (credentials s)"
      and "status (snd (verify drv (serve drv s rs) b)) = 500"
  proof -
    from that(1) have "list_all (\<lambda>row. is_json (snd row)) (credentials (serve drv s rs))"
      by (rule serve_all_json)
    from this that(2) show ?thesis by (rule verify_json_rows)
  qed
  ultimately show ?thesis
    by (simp add: credentials_verify)
qed

theorem verify_pure_read_witness:
  "credentials (fst (verify sample_driver
        (fst (issue sample_driver reads_a new_db (Some cred_x))) (Some ask_x))) =
     credentials (fst (issue sample_driver reads_a new_db (Some cred_x))) \<and>
   statements (fst (verify sample_driver
        (fst (issue sample_driver reads_a new_db (Some cred_x))) (Some ask_x))) =
     statements (fst (issue sample_driver reads_a new_db (Some cred_x))) @ [SELECT_data ''X''] \<and>
   status (snd (verify sample_driver
        (serve sample_driver new_db [Issue reads_a (Some cred_x)]) (Some ask_x))) = 200 \<and>
   status (snd (verify sample_driver
        (serve sample_driver new_db [Issue reads_a (Some cred_x)])
        (Some (JObj [(''id'', odd_id)])))) = 500 \<and>
   ToString_throws odd_id"
  using verify_pure_read
    [of sample_driver "fst (issue sample_driver reads_a new_db (Some cred_x))" "Some ask_x"
        "''X''" "[]"]
    verify_pure_read
    [of sample_driver new_db "Some (JObj [(''id'', odd_id)])" "''X''"
        "[Issue reads_a (Some cred_x)]"]
  by (simp add: eval_simps)

section \<open>Two issue requests for one id at once\<close>

text \<open>
  A request served alone is its two halves one after the other. In a race the halves
  of two requests are ordered by a schedule, and the statements of a half reach the
  database in that order.
\<close>

lemma issue_two_halves:
  "interleave drv [True, True] (s, Arrived e b, t) =
     (fst (issue drv e s b), Answered (snd (issue drv e s b)), t)"
  by (simp add: issue_def case_prod_beta)

lemma stage_ok_mono:
  assumes "stage_ok drv v s t"
      and "bind_id drv v \<in> fst ` set (credentials s) \<Longrightarrow>
           bind_id drv v \<in> fst ` set (credentials s1)"
  shows "stage_ok drv v s1 t"
proof (cases t)
  case (Arrived e b)
  with assms(1) show ?thesis by (simp add: stage_ok_def)
next
  case (Suspended e p)
  with assms(1) obtain w found where "p = Checked v w found"
    and "found \<longrightarrow> bind_id drv v \<in> fst ` set (credentials s)"
    by (auto simp: stage_ok_def)
  with assms(2) Suspended show ?thesis by (simp add: stage_ok_def)
next
  case (Answered r)
  with assms(1) have "status r = 201 \<or> status r = 409 \<or> status r = 500"
    and "bind_id drv v \<in> fst ` set (credentials s)"
    by (simp_all add: stage_ok_def)
  with assms(2) Answered show ?thesis by (simp add: stage_ok_def)
qed

lemma advance_stage:
  assumes ok: "stage_ok drv v s t" and v: "truthy v" and logged: "\<not> ToString_throws v"
  shows "stage_ok drv v (fst (advance drv s t)) (snd (advance drv s t)) \<and>
         (credentials (fst (advance drv s t)) = credentials s \<and>
            (answer (snd (advance drv s t)) = Some 201) = (answer t = Some 201)
          \<or> bind_id drv v \<notin> fst ` set (credentials s) \<and>
            answer t \<noteq> Some 201 \<and> answer (snd (advance drv s t)) = Some 201 \<and>
            (\<exists>d. credentials (fst (advance drv s t)) = credentials s @ [(bind_id drv v, d)]))"
proof (cases t)
  case (Arrived e b)
  with ok obtain ps where b: "b = Some (JObj ps)" and id: "map_of ps ''id'' = Some v"
    by (auto simp: stage_ok_def)
  from id v have "resolve_id e (JObj ps) = v" by (rule resolve_id_truthy)
  with Arrived b show ?thesis
    by (simp add: issue_check_accepted stage_ok_def)
next
  case (Suspended e p)
  with ok obtain w found where p: "p = Checked v w found"
    and found: "found \<longrightarrow> bind_id drv v \<in> fst ` set (credentials s)"
    by (auto simp: stage_ok_def)
  show ?thesis
  proof (cases found)
    case True
    with Suspended p found logged show ?thesis
      by (simp add: stage_ok_def message_def log_id_def)
  next
    case False
    with Suspended p logged show ?thesis
      by (simp add: save_eq stage_ok_def message_def log_id_def)
  qed
next
  case (Answered r)
  with ok show ?thesis by simp
qed

lemma race_step_first:
  assumes inv: "race_inv drv v rows (s, a, b)" and v: "truthy v"
      and logged: "\<not> ToString_throws v"
      and new: "bind_id drv v \<notin> fst ` set rows"
  shows "race_inv drv v rows (fst (advance drv s a), snd (advance drv s a), b)"
proof -
  let ?s = "fst (advance drv s a)" and ?a = "snd (advance drv s a)"
  from inv have a: "stage_ok drv v s a" and b: "stage_ok drv v s b"
    by (simp_all add: race_inv_def)
  from advance_stage [OF a v logged] have a': "stage_ok drv v ?s ?a" by simp
  from advance_stage [OF a v logged] consider
    (same) "credentials ?s = credentials s" "(answer ?a = Some 201) = (answer a = Some 201)"
    | (wins) "bind_id drv v \<notin> fst ` set (credentials s)" "answer a \<noteq> Some 201"
        "answer ?a = Some 201" "\<exists>d. credentials ?s = credentials s @ [(bind_id drv v, d)]"
    by blast
  then show ?thesis
  proof cases
    case same
    have "stage_ok drv v ?s b"
      using stage_ok_mono [OF b, of ?s] same(1) by simp
    with a' same inv show ?thesis by (simp add: race_inv_def)
  next
    case wins
    have b': "stage_ok drv v ?s b"
      using stage_ok_mono [OF b, of ?s] wins(4) by auto
    from inv wins(1) have "answer b \<noteq> Some 201" and "credentials s = rows"
      by (auto simp: race_inv_def split: if_splits)
    with a' b' wins show ?thesis by (simp add: race_inv_def)
  qed
qed

lemma race_step_second:
  assumes inv: "race_inv drv v rows (s, a, b)" and v: "truthy v"
      and logged: "\<not> ToString_throws v"
      and new: "bind_id drv v \<notin> fst ` set rows"
  shows "race_inv drv v rows (fst (advance drv s b), a, snd (advance drv s b))"
proof -
  from inv have "race_inv drv v rows (s, b, a)"
    by (auto simp: race_inv_def)
  from race_step_first [OF this v logged new]
  show ?thesis by (auto simp: race_inv_def)
qed

lemma race_run:
  assumes v: "truthy v" and logged: "\<not> ToString_throws v" and new: "bind_id drv v \<notin> fst ` set rows"
  shows "race_inv drv v rows c \<Longrightarrow> race_inv drv v rows (interleave drv sched c)"
proof (induction sched arbitrary: c)
  case Nil
  then show ?case by simp
next
  case (Cons first sched)
  obtain s a b where c: "c = (s, a, b)" by (cases c)
  show ?case
  proof (cases first)
    case True
    from Cons.prems c have "race_inv drv v rows (fst (advance drv s a), snd (advance drv s a), b)"
      by (simp add: race_step_first [OF _ v logged new])
    from Cons.IH [OF this] True c show ?thesis by (simp add: case_prod_beta)
  next
    case False
    from Cons.prems c have "race_inv drv v rows (fst (advance drv s b), a, snd (advance drv s b))"
      by (simp add: race_step_second [OF _ v logged new])
    from Cons.IH [OF this] False c show ?thesis by (simp add: case_prod_beta)
  qed
qed

lemma race_final:
  assumes inv: "race_inv drv v rows (s, a, b)" and new: "bind_id drv v \<notin> fst ` set rows"
      and fin: "answered a" "answered b"
  shows "(answer a = Some 201 \<and> (answer b = Some 409 \<or> answer b = Some 500) \<or>
          answer b = Some 201 \<and> (answer a = Some 409 \<or> answer a = Some 500)) \<and>
         (\<exists>d. credentials s = rows @ [(bind_id drv v, d)])"
proof -
  from fin obtain ra rb where a: "a = Answered ra" and b: "b = Answered rb"
    by (cases a; cases b) simp_all
  from inv a b have sa: "status ra = 201 \<or> status ra = 409 \<or> status ra = 500"
    and sb: "status rb = 201 \<or> status rb = 409 \<or> status rb = 500"
    and stored: "bind_id drv v \<in> fst ` set (credentials s)"
    by (simp_all add: race_inv_def stage_ok_def)
  from stored new have "credentials s \<noteq> rows" by auto
  with inv a b have one: "status ra = 201 \<or> status rb = 201"
    and not_both: "\<not> (status ra = 201 \<and> status rb = 201)"
    and row: "\<exists>d. credentials s = rows @ [(bind_id drv v, d)]"
    by (auto simp: race_inv_def split: if_splits)
  from sa sb one not_both a b row show ?thesis by auto
qed

lemma progress_advance: "progress (snd (advance drv s t)) = min 2 (Suc (progress t))"
  by (cases t) (simp_all add: case_prod_beta)

lemma progress_interleave:
  "progress (fst (snd (interleave drv sched (s, a, b)))) =
     min 2 (progress a + count_list sched True) \<and>
   progress (snd (snd (interleave drv sched (s, a, b)))) =
     min 2 (progress b + count_list sched False)"
proof (induction sched arbitrary: s a b)
  case Nil
  then show ?case by (cases a; cases b) simp_all
next
  case (Cons first sched)
  show ?case
  proof (cases first)
    case True
    with Cons.IH [of "fst (advance drv s a)" "snd (advance drv s a)" b]
    show ?thesis by (simp add: case_prod_beta progress_advance)
  next
    case False
    with Cons.IH [of "fst (advance drv s b)" a "snd (advance drv s b)"]
    show ?thesis by (simp add: case_prod_beta progress_advance)
  qed
qed

lemma answered_progress: "answered t = (progress t = 2)"
  by (cases t) simp_all

text \<open>
  What holds of C4. Two issue requests carry the same truthy id \<open>v\<close>, which has no row
  and can be written into a log line. Under every schedule that lets each request run
  both its halves, both are answered, exactly one of them with 201, and the table has
  gained exactly one row for the id. The other request is answered 409 or 500.
\<close>

lemma concurrent_issue_one_winner:
  assumes ids: "map_of ps ''id'' = Some v" "map_of qs ''id'' = Some v" "truthy v"
      and logged: "\<not> ToString_throws v"
      and new: "bind_id drv v \<notin> fst ` set (credentials s)"
      and fair: "2 \<le> count_list sched True" "2 \<le> count_list sched False"
      and run: "interleave drv sched
                  (s, Arrived ea (Some (JObj ps)), Arrived eb (Some (JObj qs))) = (s1, a, b)"
  shows "answered a \<and> answered b \<and>
         (answer a = Some 201 \<and> (answer b = Some 409 \<or> answer b = Some 500) \<or>
          answer b = Some 201 \<and> (answer a = Some 409 \<or> answer a = Some 500)) \<and>
         (\<exists>d. credentials s1 = credentials s @ [(bind_id drv v, d)])"
proof -
  have "race_inv drv v (credentials s)
          (s, Arrived ea (Some (JObj ps)), Arrived eb (Some (JObj qs)))"
    using ids by (simp add: race_inv_def stage_ok_def)
  from race_run [OF ids(3) logged new this, of sched] run
  have inv: "race_inv drv v (credentials s) (s1, a, b)" by simp
  from progress_interleave [of drv sched s "Arrived ea (Some (JObj ps))"
      "Arrived eb (Some (JObj qs))"] run fair
  have fin: "answered a" "answered b"
    by (simp_all add: answered_progress)
  from race_final [OF inv new fin] fin show ?thesis by simp
qed

text \<open>When the second request arrives after the first was answered, it is answered 409.\<close>

lemma sequential_issue_loser_409:
  assumes ids: "map_of ps ''id'' = Some v" "map_of qs ''id'' = Some v" "truthy v"
      and logged: "\<not> ToString_throws v"
      and new: "bind_id drv v \<notin> fst ` set (credentials s)"
  shows "answer (fst (snd (interleave drv [True, True, False, False]
           (s, Arrived ea (Some (JObj ps)), Arrived eb (Some (JObj qs)))))) = Some 201 \<and>
         snd (snd (interleave drv [True, True, False, False]
           (s, Arrived ea (Some (JObj ps)), Arrived eb (Some (JObj qs))))) =
           Answered (message 409 ''Credential already issued'')"
proof -
  from ids have "resolve_id ea (JObj ps) = v" "resolve_id eb (JObj qs) = v"
    by (simp_all add: resolve_id_truthy)
  with logged new show ?thesis
    by (simp add: issue_check_accepted issue_save_logged del: issue_save.simps)
qed

text \<open>
  C4 fails when both requests ask \<^verbatim>\<open>exists\<close> before either saves. Both are told that
  the id has no row. The first saves and is answered 201. The insert of the second is
  refused by the primary key; the error lands in the \<^verbatim>\<open>catch\<close> of the handler, and
  the second request is answered 500, not with the conflict, 409, that the same
  request gets when it arrives later.
\<close>

theorem concurrent_issue_loser_500:
  assumes ids: "map_of ps ''id'' = Some v" "map_of qs ''id'' = Some v" "truthy v"
      and logged: "\<not> ToString_throws v"
      and new: "bind_id drv v \<notin> fst ` set (credentials s)"
  shows "answer (fst (snd (interleave drv [True, False, True, False]
           (s, Arrived ea (Some (JObj ps)), Arrived eb (Some (JObj qs)))))) = Some 201 \<and>
         snd (snd (interleave drv [True, False, True, False]
           (s, Arrived ea (Some (JObj ps)), Arrived eb (Some (JObj qs))))) =
           Answered (message 500 ''Internal server error'') \<and>
         credentials (fst (interleave drv [True, False, True, False]
           (s, Arrived ea (Some (JObj ps)), Arrived eb (Some (JObj qs))))) =
           credentials s @
             [(bind_id drv v,
               JSON_stringify (JObj [(''credential'', JObj (AList.update ''id'' v ps)),
                                     (''worker'', JStr (WORKER_ID ea)),
                                     (''timestamp'', JStr (date_saved ea))]))]"
proof -
  from ids have "resolve_id ea (JObj ps) = v" "resolve_id eb (JObj qs) = v"
    by (simp_all add: resolve_id_truthy)
  with logged new show ?thesis
    by (simp add: issue_check_accepted issue_save_logged del: issue_save.simps)
qed

text \<open>Two requests for the id \<^verbatim>\<open>X\<close> on a database that was never opened.\<close>

theorem concurrent_issue_loser_500_witness:
  "answer (fst (snd race_check_first)) = Some 201 \<and>
   snd (snd race_check_first) = Answered (message 500 ''Internal server error'') \<and>
   credentials (fst race_check_first) =
     [(''X'', Serialized (JObj [(''credential'', cred_x), (''worker'', JStr ''worker-1''),
                               (''timestamp'', JStr ''2025-10-07T08:10:11.611Z'')]))]"
  using concurrent_issue_loser_500
    [of "[(''id'', JStr ''X''), (''name'', JStr ''Jane'')]" "JStr ''X''"
        "[(''id'', JStr ''X''), (''name'', JStr ''Jane'')]" sample_driver new_db
        reads_a reads_b]
  by (simp add: race_check_first_def cred_x_def bind_id_def new_db_def reads_a_def
      JSON_stringify_def)

end
